theory Spec2Isabelle
  imports Main
begin

section \<open>JavaScript values, exceptions and events\<close>

text \<open>
  The facade of \<^verbatim>\<open>src/src/index.ts\<close> (class \<^verbatim>\<open>BigQuery\<close>) passes most payloads
  through without looking inside: rows, schemas, query results, metadata fields. They are
  values of one datatype of JavaScript data. Numbers are integers here; floating point is
  not modelled.
\<close>

datatype jsval =
    JUndefined
  | JNull
  | JBool bool
  | JNum int
  | JStr string
  | JArr "jsval list"
  | JObj "(string \<times> jsval) list"

text \<open>
  An exception object of the client library: what \<^verbatim>\<open>ex.name\<close> and \<^verbatim>\<open>ex.message\<close>
  read, and its own enumerable properties in the order of enumeration, which is what
  \<^verbatim>\<open>JSON.stringify\<close> sees of it (for a \<^verbatim>\<open>PartialFailureError\<close>: the per-row
  \<^verbatim>\<open>errors\<close>, the \<^verbatim>\<open>name\<close>, the \<^verbatim>\<open>response\<close> and the \<^verbatim>\<open>message\<close>).
\<close>

datatype exn =
  Exn (ex_name: string) (ex_message: string) (ex_props: "(string \<times> jsval) list")

text \<open>
  What a facade method fails with. \<open>TypeError\<close>, \<open>ReferenceError\<close> and \<open>Error\<close> are
  objects the facade (or the engine, for a dereference of \<^verbatim>\<open>null\<close>) constructs; they
  carry a message only. \<open>Thrown ex\<close> is the very exception object \<open>ex\<close> of the client
  library, passed on as it is. A synchronous \<^verbatim>\<open>throw\<close> and a rejected promise are
  both the \<open>Inl\<close> of a result.
\<close>

datatype jserr =
    TypeError string
  | ReferenceError string
  | Error string
  | Thrown exn

text \<open>
  \<^verbatim>\<open>this.emitter.emit(kind, {service, message, data})\<close>: the emitter is a sink that
  records what it receives. \<^verbatim>\<open>emit\<close> is taken to return normally (a listener is
  installed for \<^verbatim>\<open>'error'\<close> and no listener throws).
\<close>

datatype event =
    LogEvent string string jsval
  | SuccessEvent string string jsval
  | ErrorEvent string jsval exn

definition dq :: char where
  "dq = CHR 0x22"

definition quoted :: "string \<Rightarrow> string" where
  "quoted s = dq # s @ [dq]"

section \<open>Truthiness and JSON text\<close>

text \<open>
  \<^verbatim>\<open>!v\<close> holds of the falsy values: \<^verbatim>\<open>undefined\<close>, \<^verbatim>\<open>null\<close>, \<^verbatim>\<open>false\<close>, \<^verbatim>\<open>0\<close>
  and the empty string.
\<close>

fun truthy :: "jsval \<Rightarrow> bool" where
  "truthy JUndefined = False"
| "truthy JNull = False"
| "truthy (JBool b) = b"
| "truthy (JNum i) = (i \<noteq> 0)"
| "truthy (JStr s) = (s \<noteq> [])"
| "truthy (JArr vs) = True"
| "truthy (JObj kvs) = True"

text \<open>
  \<^verbatim>\<open>Array.prototype.join\<close>: an \<^verbatim>\<open>undefined\<close> element contributes the empty string.
\<close>

fun js_join :: "string \<Rightarrow> string option list \<Rightarrow> string" where
  "js_join sep [] = []"
| "js_join sep [x] = (case x of None \<Rightarrow> [] | Some s \<Rightarrow> s)"
| "js_join sep (x # y # ys) =
     (case x of None \<Rightarrow> [] | Some s \<Rightarrow> s) @ sep @ js_join sep (y # ys)"

text \<open>
  \<^verbatim>\<open>JSON.stringify(value, null, 2)\<close>, after the language standard. An integer prints as
  its decimal numeral (as the standard's number-to-string does below \<open>10\<^sup>2\<^sup>1\<close>). A string
  is quoted, with the quote, the backslash and the control characters escaped; characters
  are the bytes of the text. An array or object prints its parts one per line, indented
  by two spaces per level and separated by commas; the empty ones print as \<^verbatim>\<open>[]\<close> and
  \<^verbatim>\<open>{}\<close>. \<^verbatim>\<open>undefined\<close> has no text (\<open>None\<close>): as an array element it prints as
  \<^verbatim>\<open>null\<close>, as the value of a property it makes the property disappear.
\<close>

definition digit_char :: "nat \<Rightarrow> char" where
  "digit_char d = ''0123456789'' ! d"

fun digits :: "nat \<Rightarrow> string" where
  "digits n = (if n < 10 then [digit_char n] else digits (n div 10) @ [digit_char (n mod 10)])"

definition number_to_string :: "int \<Rightarrow> string" where
  "number_to_string i = (if i < 0 then CHR ''-'' # digits (nat (- i)) else digits (nat i))"

definition hex_char :: "nat \<Rightarrow> char" where
  "hex_char d = ''0123456789abcdef'' ! d"

definition escape :: "char \<Rightarrow> string" where
  "escape c =
     (if c = CHR 0x22 then [CHR 0x5C, CHR 0x22]
      else if c = CHR 0x5C then [CHR 0x5C, CHR 0x5C]
      else if c = CHR 0x08 then [CHR 0x5C, CHR ''b'']
      else if c = CHR 0x0C then [CHR 0x5C, CHR ''f'']
      else if c = CHR 0x0A then [CHR 0x5C, CHR ''n'']
      else if c = CHR 0x0D then [CHR 0x5C, CHR ''r'']
      else if c = CHR 0x09 then [CHR 0x5C, CHR ''t'']
      else if (of_char c :: nat) < 32 then
        [CHR 0x5C, CHR ''u'', CHR ''0'', CHR ''0'',
         hex_char (of_char c div 16), hex_char (of_char c mod 16)]
      else [c])"

definition quote_json :: "string \<Rightarrow> string" where
  "quote_json s = CHR 0x22 # concat (map escape s) @ [CHR 0x22]"

definition indent :: "nat \<Rightarrow> string" where
  "indent n = replicate (2 * n) CHR '' ''"

fun serialize :: "nat \<Rightarrow> jsval \<Rightarrow> string option"
  and elements :: "nat \<Rightarrow> jsval list \<Rightarrow> string list"
  and members :: "nat \<Rightarrow> (string \<times> jsval) list \<Rightarrow> string list" where
  "serialize n JUndefined = None"
| "serialize n JNull = Some ''null''"
| "serialize n (JBool b) = Some (if b then ''true'' else ''false'')"
| "serialize n (JNum i) = Some (number_to_string i)"
| "serialize n (JStr s) = Some (quote_json s)"
| "serialize n (JArr vs) =
     Some (case elements (Suc n) vs of
             [] \<Rightarrow> ''[]''
           | e # es \<Rightarrow>
               CHR ''['' # CHR 0x0A # indent (Suc n)
               @ js_join (CHR '','' # CHR 0x0A # indent (Suc n)) (map Some (e # es))
               @ CHR 0x0A # indent n @ '']'')"
| "serialize n (JObj kvs) =
     Some (case members (Suc n) kvs of
             [] \<Rightarrow> ''{}''
           | m # ms \<Rightarrow>
               CHR ''{'' # CHR 0x0A # indent (Suc n)
               @ js_join (CHR '','' # CHR 0x0A # indent (Suc n)) (map Some (m # ms))
               @ CHR 0x0A # indent n @ ''}'')"
| "elements n [] = []"
| "elements n (v # vs) =
     (case serialize n v of None \<Rightarrow> ''null'' | Some s \<Rightarrow> s) # elements n vs"
| "members n [] = []"
| "members n (kv # kvs) =
     (case serialize n (snd kv) of
        None \<Rightarrow> members n kvs
      | Some s \<Rightarrow> (quote_json (fst kv) @ '': '' @ s) # members n kvs)"

definition json_stringify :: "jsval \<Rightarrow> string option" where
  "json_stringify v = serialize 0 v"


section \<open>Handles of the client library\<close>

record credentials =
  client_email :: string
  private_key :: string

record config =
  projectId :: string
  credentials :: "credentials option"

text \<open>\<^verbatim>\<open>new BQ(this.config)\<close>, \<^verbatim>\<open>client.dataset(id)\<close>, \<^verbatim>\<open>dataset.table(id)\<close>.\<close>

datatype bq_client = BQ config

datatype dataset = Dataset (ds_id: string)

datatype table = Table (tbl_dataset: dataset) (tbl_id: string)

datatype job = Job string

record query_options =
  query_text :: string
  useLegacySql :: bool
  maximumBillingTier :: int

text \<open>
  The third component of \<^verbatim>\<open>job.getQueryResults()\<close>. \<^verbatim>\<open>errors\<close> is \<open>None\<close> when the
  field is not an array (absent, \<^verbatim>\<open>undefined\<close>, \<^verbatim>\<open>null\<close>); \<^verbatim>\<open>jobComplete\<close> is
  \<open>None\<close> when absent. The \<^verbatim>\<open>message\<close> of an error entry is optional in the library's
  type.
\<close>

record error_proto =
  message :: "string option"
  reason :: "string option"

record query_response =
  errors :: "error_proto list option"
  jobComplete :: "bool option"

record metadata =
  streamingBuffer :: jsval

section \<open>The remote collaborator\<close>

text \<open>
  Every call into the client library is a function of the remote state \<open>'r\<close>, returning
  an exception or a value and the next remote state. The facade is verified against any
  such collaborator.
  \<open>datasetHas h k\<close> and \<open>tableHas h k\<close> say whether the handle object \<open>h\<close> has a truthy
  property named \<open>k\<close> (its own or inherited); they matter only once a handle has become
  the prototype of a cache object (see \<open>assign\<close> below).
\<close>

record 'r collab =
  getDatasets :: "bq_client \<Rightarrow> 'r \<Rightarrow> (exn + unit) \<times> 'r"
  datasetExists :: "dataset \<Rightarrow> 'r \<Rightarrow> (exn + bool) \<times> 'r"
  datasetCreate :: "dataset \<Rightarrow> 'r \<Rightarrow> (exn + unit) \<times> 'r"
  tableExists :: "table \<Rightarrow> 'r \<Rightarrow> (exn + bool) \<times> 'r"
  tableCreate :: "table \<Rightarrow> jsval \<Rightarrow> 'r \<Rightarrow> (exn + unit) \<times> 'r"
  tableInsert :: "table \<Rightarrow> jsval \<Rightarrow> 'r \<Rightarrow> (exn + jsval) \<times> 'r"
  tableGetMetadata :: "table \<Rightarrow> 'r \<Rightarrow> (exn + metadata) \<times> 'r"
  createQueryJob :: "query_options \<Rightarrow> 'r \<Rightarrow> (exn + job) \<times> 'r"
  getQueryResults :: "job \<Rightarrow> 'r \<Rightarrow> (exn + jsval \<times> query_response) \<times> 'r"
  datasetHas :: "dataset \<Rightarrow> string \<Rightarrow> bool"
  tableHas :: "table \<Rightarrow> string \<Rightarrow> bool"

datatype call =
    GetDatasets
  | DatasetExists dataset
  | DatasetCreate dataset
  | TableExists table
  | TableCreate table jsval
  | TableInsert table jsval
  | TableGetMetadata table
  | CreateQueryJob query_options
  | GetQueryResults job

section \<open>Plain objects used as dictionaries\<close>

text \<open>
  \<^verbatim>\<open>this.datasets = {}\<close> and \<^verbatim>\<open>this.tables = {}\<close> are plain objects: a read
  \<^verbatim>\<open>obj[k]\<close> finds an own property or, failing that, one inherited along the prototype
  chain, which starts at \<^verbatim>\<open>Object.prototype\<close>. An assignment \<^verbatim>\<open>obj[k] = h\<close>
  creates or overwrites an own property, except for \<^verbatim>\<open>k = "__proto__"\<close>, whose
  inherited setter replaces the prototype of \<^verbatim>\<open>obj\<close> by \<^verbatim>\<open>h\<close>.
\<close>

record 'h jsobj =
  own :: "string \<rightharpoonup> 'h"
  proto :: "'h option"

definition empty_obj :: "'h jsobj" where
  "empty_obj = \<lparr>own = Map.empty, proto = None\<rparr>"

definition object_prototype_names :: "string list" where
  "object_prototype_names =
     [''constructor'', ''__defineGetter__'', ''__defineSetter__'', ''hasOwnProperty'',
      ''__lookupGetter__'', ''__lookupSetter__'', ''isPrototypeOf'',
      ''propertyIsEnumerable'', ''toString'', ''valueOf'', ''__proto__'',
      ''toLocaleString'']"

text \<open>
  What a read finds: a handle, or a truthy value that is not a handle stored by the
  facade (an inherited member, named by its key). A read that finds nothing
  (\<^verbatim>\<open>undefined\<close>) is \<open>None\<close>.
\<close>

datatype 'h slot = Handle 'h | Foreign string

definition lookup :: "('h \<Rightarrow> string \<Rightarrow> bool) \<Rightarrow> 'h jsobj \<Rightarrow> string \<Rightarrow> 'h slot option" where
  "lookup has obj k =
     (if k = ''__proto__'' then
        (case proto obj of None \<Rightarrow> Some (Foreign k) | Some h \<Rightarrow> Some (Handle h))
      else
        (case own obj k of
           Some h \<Rightarrow> Some (Handle h)
         | None \<Rightarrow>
             (case proto obj of
                None \<Rightarrow> if k \<in> set object_prototype_names then Some (Foreign k) else None
              | Some p \<Rightarrow> if has p k then Some (Foreign k) else None)))"

definition assign :: "'h jsobj \<Rightarrow> string \<Rightarrow> 'h \<Rightarrow> 'h jsobj" where
  "assign obj k h =
     (if k = ''__proto__'' then obj\<lparr>proto := Some h\<rparr>
      else obj\<lparr>own := (own obj)(k \<mapsto> h)\<rparr>)"

section \<open>The facade and its world\<close>

text \<open>
  The fields of the class (\<^verbatim>\<open>name\<close>, \<^verbatim>\<open>config\<close>, \<^verbatim>\<open>client\<close>, \<^verbatim>\<open>datasets\<close>,
  \<^verbatim>\<open>tables\<close>) together with what lies outside it: the events the emitter has received,
  the state of the remote side, and the calls made into the client library so far.
\<close>

record 'r world =
  name :: string
  config :: config
  client :: "bq_client option"
  datasets :: "dataset jsobj"
  tables :: "table jsobj"
  emitted :: "event list"
  remote :: 'r
  calls :: "call list"

definition constructor :: "string \<Rightarrow> config \<Rightarrow> 'r \<Rightarrow> 'r world" where
  "constructor nm cfg r =
     \<lparr>name = nm, config = cfg, client = None, datasets = empty_obj, tables = empty_obj,
      emitted = [], remote = r, calls = []\<rparr>"

definition log :: "'r world \<Rightarrow> string \<Rightarrow> jsval \<Rightarrow> 'r world" where
  "log w msg data = w\<lparr>emitted := emitted w @ [LogEvent (name w) msg data]\<rparr>"

definition success :: "'r world \<Rightarrow> string \<Rightarrow> jsval \<Rightarrow> 'r world" where
  "success w msg data = w\<lparr>emitted := emitted w @ [SuccessEvent (name w) msg data]\<rparr>"

definition error :: "'r world \<Rightarrow> exn \<Rightarrow> jsval \<Rightarrow> 'r world" where
  "error w err data = w\<lparr>emitted := emitted w @ [ErrorEvent (name w) data err]\<rparr>"

text \<open>One call into the client library: it is logged and moves the remote state.\<close>

definition invoke :: "call \<Rightarrow> ('r \<Rightarrow> 'a \<times> 'r) \<Rightarrow> 'r world \<Rightarrow> 'a \<times> 'r world" where
  "invoke k f w =
     (case f (remote w) of (a, r') \<Rightarrow> (a, w\<lparr>remote := r', calls := calls w @ [k]\<rparr>))"

text \<open>
  Reading a property of \<^verbatim>\<open>null\<close> (\<^verbatim>\<open>this.client.dataset\<close> before \<^verbatim>\<open>init\<close>), and
  calling a member that does not exist; the wording is the engine's.
\<close>

definition null_deref :: "string \<Rightarrow> jserr" where
  "null_deref member =
     TypeError (''Cannot read properties of null (reading '' @ [CHR 0x27] @ member @ [CHR 0x27] @ '')'')"

definition not_a_function :: "string \<Rightarrow> jserr" where
  "not_a_function expr = TypeError (expr @ '' is not a function'')"

section \<open>The operations of the facade\<close>

text \<open>
  \<^verbatim>\<open>init\<close>: log the configuration, build a client, probe the connection with
  \<^verbatim>\<open>client.getDatasets()\<close>; only when the probe succeeds is the client stored.
\<close>

definition init :: "'r collab \<Rightarrow> 'r world \<Rightarrow> (jserr + unit) \<times> 'r world" where
  "init c w =
     (let w1 = log w ''Using config''
                 (JObj [(''projectId'', JStr (projectId (config w))),
                        (''email'', (case credentials (config w) of
                                       Some cr \<Rightarrow> JStr (client_email cr)
                                     | None \<Rightarrow> JStr ''n/a'')),
                        (''method'', (case credentials (config w) of
                                        Some cr \<Rightarrow> JStr ''PrivateKey''
                                      | None \<Rightarrow> JStr ''KeyFile''))]);
          cl = BQ (config w)
      in case invoke GetDatasets (getDatasets c cl) w1 of
           (Inl ex, w2) \<Rightarrow> (Inl (Thrown ex), w2)
         | (Inr u, w2) \<Rightarrow>
             (Inr (),
              success (w2\<lparr>client := Some cl\<rparr>)
                (''Successfully connected on project '' @ projectId (config w)) JUndefined))"

text \<open>
  \<^verbatim>\<open>createDataSet\<close>: \<^verbatim>\<open>this.client.dataset(datasetName)\<close> dereferences the client;
  then the existence probe, the create call when the probe says \<^verbatim>\<open>false\<close>, and in
  both cases the write to the cache.
\<close>

definition createDataSet ::
  "'r collab \<Rightarrow> string \<Rightarrow> 'r world \<Rightarrow> (jserr + dataset) \<times> 'r world" where
  "createDataSet c datasetName w =
     (let w1 = log w (''Creating dataset '' @ datasetName) JUndefined in
      case client w1 of
        None \<Rightarrow> (Inl (null_deref ''dataset''), w1)
      | Some cl \<Rightarrow>
          (let ds = Dataset datasetName in
           case invoke (DatasetExists ds) (datasetExists c ds) w1 of
             (Inl ex, w2) \<Rightarrow> (Inl (Thrown ex), w2)
           | (Inr exists, w2) \<Rightarrow>
               if exists = False then
                 (case invoke (DatasetCreate ds) (datasetCreate c ds) w2 of
                    (Inl ex, w3) \<Rightarrow> (Inl (Thrown ex), w3)
                  | (Inr u, w3) \<Rightarrow>
                      (let w4 = success w3 (''Dataset '' @ quoted datasetName @ '' created'')
                                  JUndefined
                       in (Inr ds, w4\<lparr>datasets := assign (datasets w4) datasetName ds\<rparr>)))
               else
                 (let w3 = success w2
                             (''Dataset '' @ quoted datasetName @ '' already exists'')
                             JUndefined
                  in (Inr ds, w3\<lparr>datasets := assign (datasets w3) datasetName ds\<rparr>))))"

text \<open>
  \<^verbatim>\<open>getDataset\<close>: \<^verbatim>\<open>this.datasets[datasetName]\<close>, a \<^verbatim>\<open>ReferenceError\<close> when the
  value read is falsy. Every value the read can find is truthy, so the error is raised
  exactly when the read finds nothing.
\<close>

definition dataset_not_found :: "string \<Rightarrow> jserr" where
  "dataset_not_found datasetName =
     ReferenceError (''Dataset '' @ quoted datasetName @ '' not found'')"

definition getDataset :: "'r collab \<Rightarrow> 'r world \<Rightarrow> string \<Rightarrow> jserr + dataset slot" where
  "getDataset c w datasetName =
     (case lookup (datasetHas c) (datasets w) datasetName of
        None \<Rightarrow> Inl (dataset_not_found datasetName)
      | Some v \<Rightarrow> Inr v)"

definition table_key :: "string \<Rightarrow> string \<Rightarrow> string" where
  "table_key datasetName tableName = datasetName @ ''.'' @ tableName"

text \<open>
  \<^verbatim>\<open>createTable\<close>: the parameter \<^verbatim>\<open>schema\<close> defaults to \<^verbatim>\<open>null\<close> when the argument
  is omitted (\<^verbatim>\<open>undefined\<close>); the guard \<^verbatim>\<open>!schema\<close> then holds of every falsy value.
  \<^verbatim>\<open>getDataset\<close> throws before any remote call; a value that is no dataset handle has
  no \<^verbatim>\<open>table\<close> method.
\<close>

definition schema_required :: "string \<Rightarrow> string \<Rightarrow> jserr" where
  "schema_required datasetName tableName =
     ReferenceError
       (quoted (datasetName @ ''.'' @ tableName) @ '' does not exists and no schema was given'')"

definition createTable ::
  "'r collab \<Rightarrow> string \<Rightarrow> string \<Rightarrow> jsval \<Rightarrow> 'r world \<Rightarrow> (jserr + table) \<times> 'r world"
  where
  "createTable c datasetName tableName schema_arg w =
     (let schema = (if schema_arg = JUndefined then JNull else schema_arg);
          w1 = log w (''Creating table '' @ tableName @ '' in '' @ datasetName) JUndefined in
      case getDataset c w1 datasetName of
        Inl e \<Rightarrow> (Inl e, w1)
      | Inr (Foreign k) \<Rightarrow> (Inl (not_a_function ''dataset.table''), w1)
      | Inr (Handle ds) \<Rightarrow>
          (let tb = Table ds tableName in
           case invoke (TableExists tb) (tableExists c tb) w1 of
             (Inl ex, w2) \<Rightarrow> (Inl (Thrown ex), w2)
           | (Inr exists, w2) \<Rightarrow>
               if exists = False \<and> \<not> truthy schema then
                 (Inl (schema_required datasetName tableName), w2)
               else if exists = False \<and> truthy schema then
                 (case invoke (TableCreate tb schema) (tableCreate c tb schema) w2 of
                    (Inl ex, w3) \<Rightarrow> (Inl (Thrown ex), w3)
                  | (Inr u, w3) \<Rightarrow>
                      (let w4 = success w3
                                  (''Table '' @ quoted (datasetName @ ''.'' @ tableName)
                                   @ '' created'') JUndefined
                       in (Inr tb,
                           w4\<lparr>tables := assign (tables w4) (table_key datasetName tableName) tb\<rparr>)))
               else
                 (let w3 = success w2
                             (''Table '' @ quoted (datasetName @ ''.'' @ tableName)
                              @ '' already exists'') JUndefined
                  in (Inr tb,
                      w3\<lparr>tables := assign (tables w3) (table_key datasetName tableName) tb\<rparr>))))"

definition table_not_found :: "string \<Rightarrow> string \<Rightarrow> jserr" where
  "table_not_found datasetName tableName =
     ReferenceError
       (''Table '' @ quoted (''<'' @ tableName @ ''>'') @ '' not found in ''
        @ quoted (''<'' @ datasetName @ ''>''))"

definition getTable :: "'r collab \<Rightarrow> 'r world \<Rightarrow> string \<Rightarrow> string \<Rightarrow> jserr + table slot" where
  "getTable c w datasetName tableName =
     (case lookup (tableHas c) (tables w) (table_key datasetName tableName) of
        None \<Rightarrow> Inl (table_not_found datasetName tableName)
      | Some v \<Rightarrow> Inr v)"

text \<open>
  \<^verbatim>\<open>insert\<close> (\<open>insert_rows\<close> here, \<open>insert\<close> being a constant of HOL): the
  \<^verbatim>\<open>catch\<close> handler turns an exception named \<^verbatim>\<open>PartialFailureError\<close> into a new
  \<^verbatim>\<open>Error\<close> whose message is \<^verbatim>\<open>JSON.stringify(ex, null, 2)\<close>, the text of the object
  made of the exception's own enumerable properties, and throws any other exception
  again. (\<^verbatim>\<open>new Error(undefined)\<close> has the empty message.)
\<close>

definition insert_rows ::
  "'r collab \<Rightarrow> jsval \<Rightarrow> string \<Rightarrow> string \<Rightarrow> 'r world \<Rightarrow> (jserr + jsval) \<times> 'r world" where
  "insert_rows c rows datasetName tableName w =
     (case getTable c w datasetName tableName of
        Inl e \<Rightarrow> (Inl e, w)
      | Inr (Foreign k) \<Rightarrow> (Inl (not_a_function ''table.insert''), w)
      | Inr (Handle tb) \<Rightarrow>
          (case invoke (TableInsert tb rows) (tableInsert c tb rows) w of
             (Inl ex, w1) \<Rightarrow>
               if ex_name ex = ''PartialFailureError'' then
                 (Inl (Error (case json_stringify (JObj (ex_props ex)) of
                                None \<Rightarrow> [] | Some text \<Rightarrow> text)), w1)
               else (Inl (Thrown ex), w1)
           | (Inr resp, w1) \<Rightarrow> (Inr resp, w1)))"

definition incomplete_message :: string where
  "incomplete_message = ''Job not complete: Might need to implement pagination''"

text \<open>
  \<^verbatim>\<open>query\<close>: submit the job, wait once for its results, then the three checks in the
  order of the source: \<^verbatim>\<open>Array.isArray(response.errors)\<close>, \<^verbatim>\<open>!response.jobComplete\<close>,
  success. A failure of the wait is reported to the emitter and replaced by a new
  \<^verbatim>\<open>Error\<close> with the same message.
\<close>

definition query ::
  "'r collab \<Rightarrow> string \<Rightarrow> bool \<Rightarrow> int \<Rightarrow> 'r world \<Rightarrow> (jserr + jsval) \<times> 'r world" where
  "query c rawQuery legacy tier w =
     (let options = \<lparr>query_text = rawQuery, useLegacySql = legacy, maximumBillingTier = tier\<rparr> in
      case client w of
        None \<Rightarrow> (Inl (null_deref ''createQueryJob''), w)
      | Some cl \<Rightarrow>
          (case invoke (CreateQueryJob options) (createQueryJob c options) w of
             (Inl ex, w1) \<Rightarrow> (Inl (Thrown ex), w1)
           | (Inr jb, w1) \<Rightarrow>
               (case invoke (GetQueryResults jb) (getQueryResults c jb) w1 of
                  (Inl e, w2) \<Rightarrow> (Inl (Error (ex_message e)), error w2 e JUndefined)
                | (Inr (rows, response), w2) \<Rightarrow>
                    (case errors response of
                       Some errs \<Rightarrow> (Inl (Error (js_join '';'' (map message errs))), w2)
                     | None \<Rightarrow>
                         if jobComplete response \<noteq> Some True then
                           (Inl (Error incomplete_message), w2)
                         else
                           (Inr rows,
                            log w2 (''Query Successful: '' @ rawQuery) JUndefined)))))"

text \<open>
  \<^verbatim>\<open>queryStream\<close> hands back the library's stream for the options; nothing is requested
  from the remote side until the stream is read.
\<close>

datatype row_stream = QueryStream query_options

definition queryStream ::
  "'r collab \<Rightarrow> string \<Rightarrow> bool \<Rightarrow> int \<Rightarrow> 'r world \<Rightarrow> (jserr + row_stream) \<times> 'r world" where
  "queryStream c q legacy tier w =
     (let options = \<lparr>query_text = q, useLegacySql = legacy, maximumBillingTier = tier\<rparr> in
      case client w of
        None \<Rightarrow> (Inl (null_deref ''createQueryStream''), w)
      | Some cl \<Rightarrow> (Inr (QueryStream options), w))"

text \<open>\<^verbatim>\<open>metadata.streamingBuffer == null\<close> holds of \<^verbatim>\<open>undefined\<close> and \<^verbatim>\<open>null\<close> only.\<close>

definition loosely_null :: "jsval \<Rightarrow> bool" where
  "loosely_null v = (case v of JUndefined \<Rightarrow> True | JNull \<Rightarrow> True | _ \<Rightarrow> False)"

definition updateAvailable ::
  "'r collab \<Rightarrow> string \<Rightarrow> string \<Rightarrow> 'r world \<Rightarrow> (jserr + bool) \<times> 'r world" where
  "updateAvailable c tableName datasetName w =
     (case getTable c w datasetName tableName of
        Inl e \<Rightarrow> (Inl e, w)
      | Inr (Foreign k) \<Rightarrow> (Inl (not_a_function ''table.getMetadata''), w)
      | Inr (Handle tb) \<Rightarrow>
          (case invoke (TableGetMetadata tb) (tableGetMetadata c tb) w of
             (Inl ex, w1) \<Rightarrow> (Inl (Thrown ex), w1)
           | (Inr md, w1) \<Rightarrow>
               (if loosely_null (streamingBuffer md) then (Inr True, w1)
                else (Inr False, w1))))"

section \<open>Sequences of calls on one facade\<close>

text \<open>
  A caller uses one instance through its methods, one call after the other. \<open>exec\<close>
  dispatches one call, \<open>run\<close> performs a list of them from a given world and returns
  the result of each call together with the final world.
\<close>

datatype op =
    OpInit
  | OpCreateDataSet string
  | OpGetDataset string
  | OpCreateTable string string jsval
  | OpGetTable string string
  | OpInsert jsval string string
  | OpQuery string bool int
  | OpQueryStream string bool int
  | OpUpdateAvailable string string

datatype val =
    VThis
  | VDataset "dataset slot"
  | VTable "table slot"
  | VData jsval
  | VStream row_stream
  | VBool bool

definition returning :: "('a \<Rightarrow> val) \<Rightarrow> (jserr + 'a) \<times> 'r world \<Rightarrow> (jserr + val) \<times> 'r world"
  where
  "returning f p = (case p of (Inl e, w) \<Rightarrow> (Inl e, w) | (Inr a, w) \<Rightarrow> (Inr (f a), w))"

fun exec :: "'r collab \<Rightarrow> op \<Rightarrow> 'r world \<Rightarrow> (jserr + val) \<times> 'r world" where
  "exec c OpInit w = returning (\<lambda>u. VThis) (init c w)"
| "exec c (OpCreateDataSet d) w = returning (\<lambda>h. VDataset (Handle h)) (createDataSet c d w)"
| "exec c (OpGetDataset d) w = returning VDataset (getDataset c w d, w)"
| "exec c (OpCreateTable d t schema) w =
     returning (\<lambda>h. VTable (Handle h)) (createTable c d t schema w)"
| "exec c (OpGetTable d t) w = returning VTable (getTable c w d t, w)"
| "exec c (OpInsert rows d t) w = returning VData (insert_rows c rows d t w)"
| "exec c (OpQuery q legacy tier) w = returning VData (query c q legacy tier w)"
| "exec c (OpQueryStream q legacy tier) w = returning VStream (queryStream c q legacy tier w)"
| "exec c (OpUpdateAvailable t d) w = returning VBool (updateAvailable c t d w)"

fun run :: "'r collab \<Rightarrow> op list \<Rightarrow> 'r world \<Rightarrow> (jserr + val) list \<times> 'r world" where
  "run c [] w = ([], w)"
| "run c (x # xs) w =
     (case exec c x w of (r, w1) \<Rightarrow>
        (case run c xs w1 of (rs, w2) \<Rightarrow> (r # rs, w2)))"

section \<open>A stub collaborator\<close>

text \<open>
  An in-memory warehouse, used to run the facade on concrete inputs. Its state lists the
  datasets and tables created so far; it accepts every name, and like the real service
  it refuses to create what already exists.
\<close>

record warehouse =
  wh_datasets :: "string list"
  wh_tables :: "(string \<times> string) list"

definition already_exists :: "string \<Rightarrow> exn" where
  "already_exists what =
     Exn ''ApiError'' (''Already Exists: '' @ what)
       [(''code'', JNum 409), (''message'', JStr (''Already Exists: '' @ what))]"

definition stub :: "warehouse collab" where
  "stub =
     \<lparr>getDatasets = (\<lambda>cl r. (Inr (), r)),
      datasetExists = (\<lambda>ds r. (Inr (ds_id ds \<in> set (wh_datasets r)), r)),
      datasetCreate =
        (\<lambda>ds r.
           if ds_id ds \<in> set (wh_datasets r) then (Inl (already_exists (ds_id ds)), r)
           else (Inr (), r\<lparr>wh_datasets := ds_id ds # wh_datasets r\<rparr>)),
      tableExists =
        (\<lambda>tb r. (Inr ((ds_id (tbl_dataset tb), tbl_id tb) \<in> set (wh_tables r)), r)),
      tableCreate =
        (\<lambda>tb schema r.
           if (ds_id (tbl_dataset tb), tbl_id tb) \<in> set (wh_tables r)
           then (Inl (already_exists (tbl_id tb)), r)
           else (Inr (),
                 r\<lparr>wh_tables := (ds_id (tbl_dataset tb), tbl_id tb) # wh_tables r\<rparr>)),
      tableInsert = (\<lambda>tb rows r. (Inr (JObj []), r)),
      tableGetMetadata = (\<lambda>tb r. (Inr \<lparr>streamingBuffer = JUndefined\<rparr>, r)),
      createQueryJob = (\<lambda>opts r. (Inr (Job ''job_1''), r)),
      getQueryResults =
        (\<lambda>jb r. (Inr (JArr [], \<lparr>errors = None, jobComplete = Some True\<rparr>), r)),
      datasetHas = (\<lambda>h k. k \<in> set object_prototype_names),
      tableHas = (\<lambda>h k. k \<in> set object_prototype_names)\<rparr>"

definition empty_warehouse :: warehouse where
  "empty_warehouse = \<lparr>wh_datasets = [], wh_tables = []\<rparr>"

definition fresh :: "warehouse world" where
  "fresh = constructor ''bq'' \<lparr>projectId = ''p1'', credentials = None\<rparr> empty_warehouse"

definition schema_t1 :: jsval where
  "schema_t1 = JStr ''name:string, age:integer''"

text \<open>The stub after \<^verbatim>\<open>init\<close>, \<^verbatim>\<open>createDataSet("d1")\<close>, \<^verbatim>\<open>createTable("d1", "t1", schema)\<close>.\<close>

definition provisioned :: "warehouse world" where
  "provisioned =
     snd (run stub [OpInit, OpCreateDataSet ''d1'', OpCreateTable ''d1'' ''t1'' schema_t1]
            fresh)"


definition api_error :: exn where
  "api_error = Exn ''ApiError'' ''Quota exceeded'' [(''code'', JNum 403)]"

text \<open>Variants of the stub whose one call answers as given.\<close>

definition stub_with_response :: "query_response \<Rightarrow> warehouse collab" where
  "stub_with_response resp = stub\<lparr>getQueryResults := (\<lambda>jb r. (Inr (JArr [], resp), r))\<rparr>"

definition stub_insert_fails :: "exn \<Rightarrow> warehouse collab" where
  "stub_insert_fails ex = stub\<lparr>tableInsert := (\<lambda>tb rows r. (Inl ex, r))\<rparr>"

definition stub_wait_fails :: "exn \<Rightarrow> warehouse collab" where
  "stub_wait_fails ex = stub\<lparr>getQueryResults := (\<lambda>jb r. (Inl ex, r))\<rparr>"

definition stub_job_fails :: "exn \<Rightarrow> warehouse collab" where
  "stub_job_fails ex = stub\<lparr>createQueryJob := (\<lambda>opts r. (Inl ex, r))\<rparr>"

definition stub_metadata :: "metadata \<Rightarrow> warehouse collab" where
  "stub_metadata md = stub\<lparr>tableGetMetadata := (\<lambda>tb r. (Inr md, r))\<rparr>"

definition stub_probe_fails :: "exn \<Rightarrow> warehouse collab" where
  "stub_probe_fails ex = stub\<lparr>getDatasets := (\<lambda>cl r. (Inl ex, r))\<rparr>"

definition failed_response :: query_response where
  "failed_response =
     \<lparr>errors = Some [\<lparr>message = Some ''Syntax error'', reason = Some ''invalidQuery''\<rparr>,
                     \<lparr>message = Some ''Unrecognized name'', reason = Some ''invalidQuery''\<rparr>],
      jobComplete = Some True\<rparr>"

definition empty_errors_response :: query_response where
  "empty_errors_response = \<lparr>errors = Some [], jobComplete = Some True\<rparr>"

text \<open>The stub after \<^verbatim>\<open>init\<close> and \<^verbatim>\<open>createDataSet("d1")\<close>.\<close>

definition with_dataset :: "warehouse world" where
  "with_dataset = snd (run stub [OpInit, OpCreateDataSet ''d1''] fresh)"

text \<open>The stub when the connectivity probe of \<^verbatim>\<open>init\<close> fails: the client stays \<^verbatim>\<open>null\<close>.\<close>

definition uninitialized :: "warehouse world" where
  "uninitialized =
     snd (run (stub_probe_fails api_error) [OpInit, OpCreateDataSet ''d1''] fresh)"

section \<open>Notions used in the statements\<close>

text \<open>
  The keys a call adds to the table cache: \<^verbatim>\<open>createTable(d, t)\<close> adds the joined key
  of \<open>d\<close> and \<open>t\<close> when it completes successfully, every other call adds none.
\<close>

definition tables_step :: "op \<Rightarrow> (jserr + val) \<Rightarrow> string set" where
  "tables_step x r =
     {k. \<exists>d t s v. x = OpCreateTable d t s \<and> r = Inr v \<and> k = table_key d t}"

text \<open>While no \<^verbatim>\<open>init\<close> has succeeded, both caches are as the constructor left them.\<close>

definition uninit_inv :: "'r world \<Rightarrow> bool" where
  "uninit_inv w = (client w = None \<longrightarrow> datasets w = empty_obj \<and> tables w = empty_obj)"

text \<open>
  The source has no error of its own for a missing connection. The failure that a
  \<^verbatim>\<open>null\<close> client causes is the engine's \<^verbatim>\<open>TypeError\<close> at \<^verbatim>\<open>this.client.dataset\<close>,
  \<^verbatim>\<open>this.client.createQueryJob\<close> or \<^verbatim>\<open>this.client.createQueryStream\<close>; this is what
  can count as the specification's "uninitialized connection" error.
\<close>

definition uninitialized_connection_error :: "jserr \<Rightarrow> bool" where
  "uninitialized_connection_error e =
     (e \<in> set (map null_deref [''dataset'', ''createQueryJob'', ''createQueryStream'']))"







section \<open>JSON text determines the value\<close>




declare digits.simps [simp del]
































section \<open>Keys of the table cache\<close>

lemma dot_in_table_key: "CHR ''.'' \<in> set (table_key d t)"
  by (simp add: table_key_def)

lemma table_key_not_inherited:
  "table_key d t \<noteq> ''__proto__''" "table_key d t \<notin> set object_prototype_names"
  using dot_in_table_key [of d t] by (auto simp: object_prototype_names_def)

lemma lookup_table_key:
  "proto obj = None \<Longrightarrow>
   lookup has obj (table_key d t) = map_option Handle (own obj (table_key d t))"
  using table_key_not_inherited [of d t]
  by (simp add: lookup_def split: option.splits)

lemma assign_table_key:
  "assign obj (table_key d t) h = obj\<lparr>own := (own obj)(table_key d t \<mapsto> h)\<rparr>"
  using table_key_not_inherited [of d t] by (simp add: assign_def)

lemma lookup_own_table_key:
  "lookup has (obj\<lparr>own := (own obj)(table_key d t \<mapsto> h)\<rparr>) (table_key d t) = Some (Handle h)"
  using table_key_not_inherited [of d t] by (simp add: lookup_def)

text \<open>A joined key splits at its first dot when the dataset names have none.\<close>

lemma append_dot_eq:
  assumes "CHR ''.'' \<notin> set d" "CHR ''.'' \<notin> set d'" "d @ CHR ''.'' # t = d' @ CHR ''.'' # t'"
  shows "d = d' \<and> t = t'"
  using assms
proof (induction d arbitrary: d')
  case Nil
  then show ?case by (cases d') auto
next
  case (Cons a d)
  then show ?case by (cases d') auto
qed

lemma table_key_inj:
  "CHR ''.'' \<notin> set d \<Longrightarrow> CHR ''.'' \<notin> set d' \<Longrightarrow>
   table_key d t = table_key d' t' \<longleftrightarrow> d = d' \<and> t = t'"
  using append_dot_eq [of d d' t t'] by (auto simp: table_key_def)

section \<open>What each operation leaves alone\<close>

lemma init_caches:
  assumes "init c w = (r, w')"
  shows "tables w' = tables w \<and> datasets w' = datasets w
       \<and> (client w \<noteq> None \<longrightarrow> client w' \<noteq> None)"
  using assms
  by (auto simp: init_def invoke_def log_def success_def Let_def split: sum.splits prod.splits)

lemma createDataSet_caches:
  assumes "createDataSet c d w = (r, w')"
  shows "tables w' = tables w \<and> client w' = client w
       \<and> (client w = None \<longrightarrow> datasets w' = datasets w)"
  using assms
  by (auto simp: createDataSet_def invoke_def log_def success_def Let_def
        split: sum.splits prod.splits option.splits if_splits)

lemma createTable_tables:
  assumes "createTable c d t s w = (r, w')"
  shows "proto (tables w') = proto (tables w)
       \<and> dom (own (tables w')) =
           dom (own (tables w)) \<union> (case r of Inl e \<Rightarrow> {} | Inr v \<Rightarrow> {table_key d t})
       \<and> client w' = client w \<and> datasets w' = datasets w"
  using assms
  by (auto simp: createTable_def invoke_def log_def success_def assign_table_key Let_def
        split: sum.splits slot.splits prod.splits if_splits)

lemma createTable_uninit:
  assumes "datasets w = empty_obj" "createTable c d t s w = (r, w')"
  shows "tables w' = tables w \<and> calls w' = calls w \<and> remote w' = remote w"
  using assms
  by (auto simp: createTable_def getDataset_def lookup_def empty_obj_def log_def Let_def
        split: sum.splits slot.splits prod.splits if_splits option.splits)

lemma insert_rows_caches:
  assumes "insert_rows c rows d t w = (r, w')"
  shows "tables w' = tables w \<and> client w' = client w \<and> datasets w' = datasets w"
  using assms
  by (auto simp: insert_rows_def invoke_def Let_def
        split: sum.splits prod.splits slot.splits if_splits)

lemma query_caches:
  assumes "query c q l t w = (r, w')"
  shows "tables w' = tables w \<and> client w' = client w \<and> datasets w' = datasets w"
  using assms
  by (auto simp: query_def invoke_def log_def error_def Let_def
        split: sum.splits prod.splits option.splits if_splits)

lemma queryStream_caches:
  assumes "queryStream c q l t w = (r, w')"
  shows "w' = w"
  using assms
  by (auto simp: queryStream_def Let_def split: option.splits)

lemma updateAvailable_caches:
  assumes "updateAvailable c t d w = (r, w')"
  shows "tables w' = tables w \<and> client w' = client w \<and> datasets w' = datasets w"
  using assms
  by (auto simp: updateAvailable_def invoke_def Let_def
        split: sum.splits prod.splits slot.splits if_splits)

lemma returningE:
  assumes "returning f p = (r, w')"
  obtains r0 where "p = (r0, w')" "r = map_sum id f r0"
  using assms by (cases p; cases "fst p") (auto simp: returning_def)

section \<open>Invariants of a sequence of calls\<close>

lemma exec_tables:
  assumes "exec c x w = (r, w')"
  shows "proto (tables w') = proto (tables w)
       \<and> dom (own (tables w')) = dom (own (tables w)) \<union> tables_step x r"
proof (cases x)
  case (OpCreateTable d t s)
  with assms obtain r0 where
    "createTable c d t s w = (r0, w')" "r = map_sum id (\<lambda>h. VTable (Handle h)) r0"
    by (auto elim: returningE)
  with createTable_tables [of c d t s w r0 w'] OpCreateTable show ?thesis
    by (cases r0) (auto simp: tables_step_def)
next
  case OpInit
  with assms init_caches [of c w _ w'] show ?thesis
    by (auto simp: tables_step_def elim!: returningE)
next
  case (OpCreateDataSet d)
  with assms createDataSet_caches [of c d w _ w'] show ?thesis
    by (auto simp: tables_step_def elim!: returningE)
next
  case (OpInsert rows d t)
  with assms insert_rows_caches [of c rows d t w _ w'] show ?thesis
    by (auto simp: tables_step_def elim!: returningE)
next
  case (OpQuery q l t)
  with assms query_caches [of c q l t w _ w'] show ?thesis
    by (auto simp: tables_step_def elim!: returningE)
next
  case (OpQueryStream q l t)
  with assms queryStream_caches [of c q l t w _ w'] show ?thesis
    by (auto simp: tables_step_def elim!: returningE)
next
  case (OpUpdateAvailable t d)
  with assms updateAvailable_caches [of c t d w _ w'] show ?thesis
    by (auto simp: tables_step_def elim!: returningE)
qed (use assms in \<open>auto simp: tables_step_def elim!: returningE\<close>)

lemma run_length: "run c ops w = (rs, w') \<Longrightarrow> length rs = length ops"
  by (induction ops arbitrary: w rs) (auto split: prod.splits)

lemma run_tables:
  assumes "run c ops w = (rs, w')"
  shows "proto (tables w') = proto (tables w)
       \<and> dom (own (tables w')) =
           dom (own (tables w)) \<union> (\<Union>(x, r) \<in> set (zip ops rs). tables_step x r)"
  using assms
proof (induction ops arbitrary: w rs)
  case Nil
  then show ?case by simp
next
  case (Cons x xs)
  then obtain r w1 rs1 where
    e: "exec c x w = (r, w1)" and r: "run c xs w1 = (rs1, w')" and rs: "rs = r # rs1"
    by (auto split: prod.splits)
  from exec_tables [OF e] Cons.IH [OF r] rs show ?case by auto
qed

lemma exec_uninit_inv:
  assumes "uninit_inv w" "exec c x w = (r, w')"
  shows "uninit_inv w'"
proof (cases x)
  case (OpCreateTable d t s)
  with assms obtain r0 where *: "createTable c d t s w = (r0, w')"
    by (auto elim: returningE)
  with createTable_tables [OF *] createTable_uninit [OF _ *] assms(1) show ?thesis
    by (auto simp: uninit_inv_def)
next
  case OpInit
  with assms init_caches [of c w _ w'] show ?thesis
    by (auto simp: uninit_inv_def elim!: returningE)
next
  case (OpCreateDataSet d)
  with assms createDataSet_caches [of c d w _ w'] show ?thesis
    by (auto simp: uninit_inv_def elim!: returningE)
next
  case (OpInsert rows d t)
  with assms insert_rows_caches [of c rows d t w _ w'] show ?thesis
    by (auto simp: uninit_inv_def elim!: returningE)
next
  case (OpQuery q l t)
  with assms query_caches [of c q l t w _ w'] show ?thesis
    by (auto simp: uninit_inv_def elim!: returningE)
next
  case (OpQueryStream q l t)
  with assms queryStream_caches [of c q l t w _ w'] show ?thesis
    by (auto simp: uninit_inv_def elim!: returningE)
next
  case (OpUpdateAvailable t d)
  with assms updateAvailable_caches [of c t d w _ w'] show ?thesis
    by (auto simp: uninit_inv_def elim!: returningE)
qed (use assms in \<open>auto simp: uninit_inv_def elim!: returningE\<close>)

lemma run_uninit_inv:
  "uninit_inv w \<Longrightarrow> run c ops w = (rs, w') \<Longrightarrow> uninit_inv w'"
proof (induction ops arbitrary: w rs)
  case Nil
  then show ?case by simp
next
  case (Cons x xs)
  then obtain r w1 rs1 where e: "exec c x w = (r, w1)" and r: "run c xs w1 = (rs1, w')"
    by (auto split: prod.splits)
  from exec_uninit_inv [OF Cons.prems(1) e] Cons.IH r show ?case by blast
qed

lemma constructor_uninit_inv: "uninit_inv (constructor nm cfg r0)"
  by (simp add: uninit_inv_def constructor_def)

section \<open>The concrete worlds\<close>

lemmas facade_defs =
  init_def createDataSet_def createTable_def getTable_def getDataset_def insert_rows_def
  query_def queryStream_def updateAvailable_def invoke_def log_def success_def error_def
  returning_def lookup_def assign_def empty_obj_def table_key_def constructor_def
  object_prototype_names_def schema_t1_def Let_def

lemma provisioned_fields:
  "name provisioned = ''bq''"
  "client provisioned = Some (BQ \<lparr>projectId = ''p1'', credentials = None\<rparr>)"
  "datasets provisioned = \<lparr>own = [''d1'' \<mapsto> Dataset ''d1''], proto = None\<rparr>"
  "tables provisioned = \<lparr>own = [''d1.t1'' \<mapsto> Table (Dataset ''d1'') ''t1''], proto = None\<rparr>"
  "remote provisioned = \<lparr>wh_datasets = [''d1''], wh_tables = [(''d1'', ''t1'')]\<rparr>"
  "calls provisioned =
     [GetDatasets, DatasetExists (Dataset ''d1''), DatasetCreate (Dataset ''d1''),
      TableExists (Table (Dataset ''d1'') ''t1''),
      TableCreate (Table (Dataset ''d1'') ''t1'') schema_t1]"
  by (simp_all add: provisioned_def fresh_def stub_def empty_warehouse_def facade_defs)

lemma provisioned_lookups:
  "getDataset c provisioned ''d1'' = Inr (Handle (Dataset ''d1''))"
  "getTable c provisioned ''d1'' ''t1'' = Inr (Handle (Table (Dataset ''d1'') ''t1''))"
  by (simp_all add: getDataset_def getTable_def lookup_def table_key_def provisioned_fields
        object_prototype_names_def)

lemma with_dataset_fields:
  "client with_dataset = Some (BQ \<lparr>projectId = ''p1'', credentials = None\<rparr>)"
  "datasets with_dataset = \<lparr>own = [''d1'' \<mapsto> Dataset ''d1''], proto = None\<rparr>"
  "tables with_dataset = empty_obj"
  "remote with_dataset = \<lparr>wh_datasets = [''d1''], wh_tables = []\<rparr>"
  "calls with_dataset =
     [GetDatasets, DatasetExists (Dataset ''d1''), DatasetCreate (Dataset ''d1'')]"
  by (simp_all add: with_dataset_def fresh_def stub_def empty_warehouse_def facade_defs)

section \<open>Query: the error check comes first\<close>

text \<open>
  C1. When the wait returns a response whose \<^verbatim>\<open>errors\<close> is a non-empty array and
  whose \<^verbatim>\<open>jobComplete\<close> is true, \<^verbatim>\<open>query\<close> fails with the \<^verbatim>\<open>Error\<close> whose message
  is the messages of the response joined by \<^verbatim>\<open>;\<close>. The completeness branch is not
  reached: the failure is the "not complete" error only if the joined text itself is
  that error's text.
\<close>

theorem query_errors_before_completeness:
  assumes "client w = Some cl"
    and "createQueryJob c
           \<lparr>query_text = q, useLegacySql = legacy, maximumBillingTier = tier\<rparr> (remote w)
         = (Inr jb, r1)"
    and "getQueryResults c jb r1 = (Inr (rows, resp), r2)"
    and "errors resp = Some errs"
    and "errs \<noteq> []"
    and "jobComplete resp = Some True"
  shows "fst (query c q legacy tier w) = Inl (Error (js_join '';'' (map message errs)))
       \<and> (js_join '';'' (map message errs) \<noteq> incomplete_message \<longrightarrow>
            fst (query c q legacy tier w) \<noteq> Inl (Error incomplete_message))"
  using assms by (simp add: query_def invoke_def)

theorem query_errors_before_completeness_witness:
  "fst (query (stub_with_response failed_response) ''SELECT 1'' False 3 provisioned)
     = Inl (Error ''Syntax error;Unrecognized name'')
   \<and> fst (query (stub_with_response failed_response) ''SELECT 1'' False 3 provisioned)
     \<noteq> Inl (Error incomplete_message)"
  using query_errors_before_completeness
    [of provisioned "BQ \<lparr>projectId = ''p1'', credentials = None\<rparr>"
      "stub_with_response failed_response" "''SELECT 1''" False 3 "Job ''job_1''"
      "remote provisioned" "JArr []" failed_response "remote provisioned"
      "[\<lparr>message = Some ''Syntax error'', reason = Some ''invalidQuery''\<rparr>,
        \<lparr>message = Some ''Unrecognized name'', reason = Some ''invalidQuery''\<rparr>]"]
  by (simp add: provisioned_fields stub_with_response_def stub_def failed_response_def
        incomplete_message_def)

text \<open>
  C10. The test is \<^verbatim>\<open>Array.isArray(response.errors)\<close>: whenever the field is an array,
  the empty one included, \<^verbatim>\<open>query\<close> fails with the joined messages (the empty message
  for the empty array) and returns no rows, whatever \<^verbatim>\<open>jobComplete\<close> says.
\<close>

theorem query_fails_on_any_errors_array:
  assumes "client w = Some cl"
    and "createQueryJob c
           \<lparr>query_text = q, useLegacySql = legacy, maximumBillingTier = tier\<rparr> (remote w)
         = (Inr jb, r1)"
    and "getQueryResults c jb r1 = (Inr (rows, resp), r2)"
    and "errors resp = Some errs"
  shows "fst (query c q legacy tier w) = Inl (Error (js_join '';'' (map message errs)))
       \<and> (errs = [] \<longrightarrow> fst (query c q legacy tier w) = Inl (Error []))
       \<and> (\<forall>v. fst (query c q legacy tier w) \<noteq> Inr v)"
  using assms by (auto simp add: query_def invoke_def)

theorem query_fails_on_any_errors_array_witness:
  "fst (query (stub_with_response empty_errors_response) ''SELECT 1'' False 3 provisioned)
     = Inl (Error [])
   \<and> fst (query (stub_with_response empty_errors_response) ''SELECT 1'' False 3 provisioned)
     \<noteq> Inr (JArr [])"
  using query_fails_on_any_errors_array
    [of provisioned "BQ \<lparr>projectId = ''p1'', credentials = None\<rparr>"
      "stub_with_response empty_errors_response" "''SELECT 1''" False 3 "Job ''job_1''"
      "remote provisioned" "JArr []" empty_errors_response "remote provisioned" "[]"]
  by (simp add: provisioned_fields stub_with_response_def stub_def empty_errors_response_def)

section \<open>Table creation without a schema\<close>

text \<open>
  C3. When the parent dataset is cached, the existence probe answers \<^verbatim>\<open>false\<close> and no
  schema is given (the argument is omitted, which reads \<^verbatim>\<open>undefined\<close>, or is any
  other falsy value),
  \<^verbatim>\<open>createTable\<close> fails with the schema-required \<^verbatim>\<open>ReferenceError\<close>; the only remote
  call made is the probe, and both caches are as before.
\<close>

theorem createTable_schema_required:
  assumes "getDataset c w d = Inr (Handle ds)"
    and "tableExists c (Table ds t) (remote w) = (Inr False, r1)"
    and "\<not> truthy schema"
  shows "fst (createTable c d t schema w) = Inl (schema_required d t)
       \<and> tables (snd (createTable c d t schema w)) = tables w
       \<and> datasets (snd (createTable c d t schema w)) = datasets w
       \<and> calls (snd (createTable c d t schema w)) = calls w @ [TableExists (Table ds t)]"
  using assms by (auto simp add: createTable_def invoke_def getDataset_def log_def)

theorem createTable_schema_required_witness:
  "fst (createTable stub ''d1'' ''t1'' JUndefined with_dataset)
     = Inl (ReferenceError
              (quoted ''d1.t1'' @ '' does not exists and no schema was given''))
   \<and> datasets (snd (createTable stub ''d1'' ''t1'' JUndefined with_dataset))
     = datasets with_dataset
   \<and> tables (snd (createTable stub ''d1'' ''t1'' JUndefined with_dataset)) = empty_obj
   \<and> calls (snd (createTable stub ''d1'' ''t1'' JUndefined with_dataset))
     = calls with_dataset @ [TableExists (Table (Dataset ''d1'') ''t1'')]
   \<and> fst (createTable stub ''d1'' ''t1'' (JStr []) with_dataset)
     = Inl (schema_required ''d1'' ''t1'')
   \<and> calls (snd (createTable stub ''d1'' ''t1'' (JStr []) with_dataset))
     = calls with_dataset @ [TableExists (Table (Dataset ''d1'') ''t1'')]"
  using
    createTable_schema_required
      [of stub with_dataset "''d1''" "Dataset ''d1''" "''t1''" "remote with_dataset" JUndefined]
    createTable_schema_required
      [of stub with_dataset "''d1''" "Dataset ''d1''" "''t1''" "remote with_dataset" "JStr []"]
  by (simp add: with_dataset_fields getDataset_def lookup_def stub_def schema_required_def)

text \<open>
  With a truthy schema and the probe answering \<^verbatim>\<open>false\<close>, the create call is issued
  with that schema.
\<close>

lemma createTable_with_schema:
  assumes "getDataset c w d = Inr (Handle ds)"
    and "tableExists c (Table ds t) (remote w) = (Inr False, r1)"
    and "truthy schema"
    and "tableCreate c (Table ds t) schema r1 = (Inr (), r2)"
  shows "fst (createTable c d t schema w) = Inr (Table ds t)
       \<and> calls (snd (createTable c d t schema w))
           = calls w @ [TableExists (Table ds t), TableCreate (Table ds t) schema]
       \<and> getTable c (snd (createTable c d t schema w)) d t = Inr (Handle (Table ds t))"
  using assms
  by (auto simp add: createTable_def invoke_def getDataset_def log_def success_def
        getTable_def assign_table_key lookup_own_table_key Let_def)

section \<open>The streaming buffer\<close>

text \<open>
  C6. For a cached table whose metadata can be fetched, \<^verbatim>\<open>updateAvailable\<close> returns
  true exactly when the \<^verbatim>\<open>streamingBuffer\<close> field of the fetched metadata is absent
  (\<^verbatim>\<open>undefined\<close>) or \<^verbatim>\<open>null\<close>, in every world.
\<close>

theorem updateAvailable_iff_no_streaming_buffer:
  assumes "getTable c w d t = Inr (Handle tb)"
    and "tableGetMetadata c tb (remote w) = (Inr md, r1)"
  shows "fst (updateAvailable c t d w)
           = Inr (streamingBuffer md = JUndefined \<or> streamingBuffer md = JNull)"
  using assms
  by (auto simp add: updateAvailable_def invoke_def loosely_null_def split: jsval.splits)

theorem updateAvailable_iff_no_streaming_buffer_witness:
  "fst (updateAvailable (stub_metadata \<lparr>streamingBuffer = JUndefined\<rparr>) ''t1'' ''d1''
          provisioned) = Inr True
   \<and> fst (updateAvailable (stub_metadata \<lparr>streamingBuffer = JNull\<rparr>) ''t1'' ''d1''
            provisioned) = Inr True
   \<and> fst (updateAvailable
            (stub_metadata \<lparr>streamingBuffer = JObj [(''estimatedRows'', JStr ''3'')]\<rparr>)
            ''t1'' ''d1'' provisioned) = Inr False"
  using
    updateAvailable_iff_no_streaming_buffer
      [of "stub_metadata \<lparr>streamingBuffer = JUndefined\<rparr>" provisioned "''d1''" "''t1''"
        "Table (Dataset ''d1'') ''t1''" "\<lparr>streamingBuffer = JUndefined\<rparr>"
        "remote provisioned"]
    updateAvailable_iff_no_streaming_buffer
      [of "stub_metadata \<lparr>streamingBuffer = JNull\<rparr>" provisioned "''d1''" "''t1''"
        "Table (Dataset ''d1'') ''t1''" "\<lparr>streamingBuffer = JNull\<rparr>" "remote provisioned"]
    updateAvailable_iff_no_streaming_buffer
      [of "stub_metadata \<lparr>streamingBuffer = JObj [(''estimatedRows'', JStr ''3'')]\<rparr>"
        provisioned "''d1''" "''t1''" "Table (Dataset ''d1'') ''t1''"
        "\<lparr>streamingBuffer = JObj [(''estimatedRows'', JStr ''3'')]\<rparr>" "remote provisioned"]
  by (simp add: provisioned_lookups stub_metadata_def stub_def)

section \<open>Lookups in the caches\<close>

lemma lookup_assign_same: "lookup has (assign obj k h) k = Some (Handle h)"
  by (simp add: lookup_def assign_def)

lemma assign_idem: "assign (assign obj k h) k h = assign obj k h"
  by (simp add: assign_def)

lemma getDataset_not_found:
  "own (datasets w) n = None \<Longrightarrow> proto (datasets w) = None \<Longrightarrow>
   n \<notin> set object_prototype_names \<Longrightarrow> getDataset c w n = Inl (dataset_not_found n)"
  by (auto simp: getDataset_def lookup_def object_prototype_names_def)

lemma getDataset_cached:
  "own (datasets w) n = Some h \<Longrightarrow> n \<noteq> ''__proto__'' \<Longrightarrow> getDataset c w n = Inr (Handle h)"
  by (simp add: getDataset_def lookup_def)

lemma getTable_not_found:
  "own (tables w) (table_key d t) = None \<Longrightarrow> proto (tables w) = None \<Longrightarrow>
   getTable c w d t = Inl (table_not_found d t)"
  by (simp add: getTable_def lookup_table_key)

lemma getTable_cached:
  "own (tables w) (table_key d t) = Some h \<Longrightarrow> proto (tables w) = None \<Longrightarrow>
   getTable c w d t = Inr (Handle h)"
  by (simp add: getTable_def lookup_table_key)

lemma getTable_visible_iff:
  assumes "proto (tables w) = None"
  shows "(\<exists>tb. getTable c w d t = Inr (Handle tb)) \<longleftrightarrow> table_key d t \<in> dom (own (tables w))"
    and "getTable c w d t \<noteq> Inr (Foreign k)"
    and "table_key d t \<notin> dom (own (tables w)) \<Longrightarrow> getTable c w d t = Inl (table_not_found d t)"
  using assms by (auto simp: getTable_def lookup_table_key split: option.splits)

lemma run_from_constructor_tables:
  assumes "run c ops (constructor nm cfg r0) = (rs, w)"
  shows "proto (tables w) = None"
    and "dom (own (tables w)) = (\<Union>(x, r) \<in> set (zip ops rs). tables_step x r)"
  using run_tables [OF assms] by (simp_all add: constructor_def empty_obj_def)

lemma provisioned_run:
  "run stub [OpInit, OpCreateDataSet ''d1'', OpCreateTable ''d1'' ''t1'' schema_t1]
     (constructor ''bq'' \<lparr>projectId = ''p1'', credentials = None\<rparr> empty_warehouse)
   = ([Inr VThis, Inr (VDataset (Handle (Dataset ''d1''))),
       Inr (VTable (Handle (Table (Dataset ''d1'') ''t1'')))], provisioned)"
proof -
  have "fst (run stub
               [OpInit, OpCreateDataSet ''d1'', OpCreateTable ''d1'' ''t1'' schema_t1]
               fresh)
        = [Inr VThis, Inr (VDataset (Handle (Dataset ''d1''))),
           Inr (VTable (Handle (Table (Dataset ''d1'') ''t1'')))]"
    by (simp add: fresh_def stub_def empty_warehouse_def facade_defs)
  then show ?thesis
    unfolding provisioned_def fresh_def by (metis prod.collapse)
qed

lemma uninitialized_client: "client uninitialized = None"
  by (simp add: uninitialized_def fresh_def stub_probe_fails_def stub_def facade_defs)

section \<open>Creating a dataset twice\<close>

lemma createDataSet_succeeds:
  assumes "client w = Some cl"
    and "datasetExists c (Dataset n) (remote w) = (Inr b, r1)"
    and "\<not> b \<Longrightarrow> datasetCreate c (Dataset n) r1 = (Inr (), r2)"
  shows "fst (createDataSet c n w) = Inr (Dataset n)
       \<and> client (snd (createDataSet c n w)) = Some cl
       \<and> remote (snd (createDataSet c n w)) = (if b then r1 else r2)
       \<and> datasets (snd (createDataSet c n w)) = assign (datasets w) n (Dataset n)"
  using assms
  by (cases b) (simp_all add: createDataSet_def invoke_def log_def success_def Let_def)

text \<open>
  C2. With a client in place, let the remote calls that two calls of
  \<^verbatim>\<open>createDataSet\<close> in a row actually make succeed: the existence probe of each call,
  and the create call of a call whose probe answered \<^verbatim>\<open>false\<close>. Then both calls
  return the handle of the dataset of that name; after each of them \<^verbatim>\<open>getDataset\<close>
  finds that handle, and the second call leaves the dataset cache as the first one left
  it. Handles are compared as the library identifies them, by dataset id.
\<close>

theorem createDataSet_idempotent:
  assumes "client w = Some cl"
    and "datasetExists c (Dataset n) (remote w) = (Inr b1, r1)"
    and "\<not> b1 \<Longrightarrow> datasetCreate c (Dataset n) r1 = (Inr (), r1')"
    and "datasetExists c (Dataset n) (if b1 then r1 else r1') = (Inr b2, r2)"
    and "\<not> b2 \<Longrightarrow> datasetCreate c (Dataset n) r2 = (Inr (), r2')"
  shows "fst (createDataSet c n w) = Inr (Dataset n)
       \<and> fst (createDataSet c n (snd (createDataSet c n w))) = Inr (Dataset n)
       \<and> getDataset c (snd (createDataSet c n w)) n = Inr (Handle (Dataset n))
       \<and> getDataset c (snd (createDataSet c n (snd (createDataSet c n w)))) n
           = Inr (Handle (Dataset n))
       \<and> datasets (snd (createDataSet c n (snd (createDataSet c n w))))
           = datasets (snd (createDataSet c n w))"
proof -
  let ?w1 = "snd (createDataSet c n w)"
  note first = createDataSet_succeeds [OF assms(1,2,3)]
  then have cl: "client ?w1 = Some cl"
    and rm: "datasetExists c (Dataset n) (remote ?w1) = (Inr b2, r2)"
    using assms(4) by simp_all
  note second = createDataSet_succeeds [OF cl rm assms(5)]
  from first second show ?thesis
    by (simp add: getDataset_def lookup_assign_same assign_idem)
qed

text \<open>
  The witness runs on the stub, which refuses a second create: the first call finds the
  dataset absent and creates it, the second finds it present and creates nothing.
\<close>

theorem createDataSet_idempotent_witness:
  "fst (createDataSet stub ''d1'' (snd (init stub fresh))) = Inr (Dataset ''d1'')
   \<and> fst (createDataSet stub ''d1'' (snd (createDataSet stub ''d1'' (snd (init stub fresh)))))
       = Inr (Dataset ''d1'')
   \<and> getDataset stub
        (snd (createDataSet stub ''d1'' (snd (createDataSet stub ''d1'' (snd (init stub fresh))))))
        ''d1''
       = Inr (Handle (Dataset ''d1''))
   \<and> datasets (snd (createDataSet stub ''d1'' (snd (createDataSet stub ''d1'' (snd (init stub fresh))))))
       = datasets (snd (createDataSet stub ''d1'' (snd (init stub fresh))))
   \<and> fst (datasetCreate stub (Dataset ''d1'') \<lparr>wh_datasets = [''d1''], wh_tables = []\<rparr>)
       = Inl (already_exists ''d1'')"
  using createDataSet_idempotent
    [of "snd (init stub fresh)" "BQ \<lparr>projectId = ''p1'', credentials = None\<rparr>" stub "''d1''"
      False empty_warehouse "\<lparr>wh_datasets = [''d1''], wh_tables = []\<rparr>"
      True "\<lparr>wh_datasets = [''d1''], wh_tables = []\<rparr>" empty_warehouse]
  by (simp add: stub_def init_def invoke_def fresh_def constructor_def log_def success_def
        empty_warehouse_def)

section \<open>Insertion: partial failures and other errors\<close>




text \<open>
  C8, as stated, fails at the wait call of \<^verbatim>\<open>query\<close>: an \<^verbatim>\<open>ApiError\<close> raised by
  \<^verbatim>\<open>job.getQueryResults()\<close> reaches the caller as a new \<^verbatim>\<open>Error\<close> that keeps the
  message only.
\<close>

theorem query_wait_error_rewritten:
  "fst (query (stub_wait_fails api_error) ''SELECT 1'' False 3 provisioned)
     = Inl (Error ''Quota exceeded'')
   \<and> fst (query (stub_wait_fails api_error) ''SELECT 1'' False 3 provisioned)
     \<noteq> Inl (Thrown api_error)"
  by (simp add: query_def invoke_def provisioned_fields stub_wait_fails_def stub_def
        api_error_def)

text \<open>
  C8, amended. An exception of the insert call that is not named
  \<^verbatim>\<open>PartialFailureError\<close>, and an exception of the job submission of \<^verbatim>\<open>query\<close>,
  reach the caller as the same object. An exception of the wait call of \<^verbatim>\<open>query\<close> is
  sent to the emitter as an error event and replaced by a new \<^verbatim>\<open>Error\<close> with the same
  message.
\<close>

theorem remote_errors_propagation:
  "(getTable c w d t = Inr (Handle tb) \<and> tableInsert c tb rows (remote w) = (Inl ex, r1)
      \<and> ex_name ex \<noteq> ''PartialFailureError''
      \<longrightarrow> fst (insert_rows c rows d t w) = Inl (Thrown ex))
   \<and> (client w = Some cl
        \<and> createQueryJob c
            \<lparr>query_text = q, useLegacySql = legacy, maximumBillingTier = tier\<rparr> (remote w)
          = (Inl ex, r1)
      \<longrightarrow> fst (query c q legacy tier w) = Inl (Thrown ex))
   \<and> (client w = Some cl
        \<and> createQueryJob c
            \<lparr>query_text = q, useLegacySql = legacy, maximumBillingTier = tier\<rparr> (remote w)
          = (Inr jb, r1)
        \<and> getQueryResults c jb r1 = (Inl ex, r2)
      \<longrightarrow> fst (query c q legacy tier w) = Inl (Error (ex_message ex))
          \<and> emitted (snd (query c q legacy tier w))
            = emitted w @ [ErrorEvent (name w) JUndefined ex])"
  by (simp add: insert_rows_def query_def invoke_def error_def)

theorem remote_errors_propagation_witness:
  "fst (insert_rows (stub_insert_fails api_error) (JArr []) ''d1'' ''t1'' provisioned)
     = Inl (Thrown api_error)
   \<and> fst (query (stub_job_fails api_error) ''SELECT 1'' False 3 provisioned)
     = Inl (Thrown api_error)
   \<and> fst (query (stub_wait_fails api_error) ''SELECT 1'' False 3 provisioned)
     = Inl (Error ''Quota exceeded'')
   \<and> emitted (snd (query (stub_wait_fails api_error) ''SELECT 1'' False 3 provisioned))
     = emitted provisioned @ [ErrorEvent ''bq'' JUndefined api_error]"
  using
    remote_errors_propagation
      [where c = "stub_insert_fails api_error" and w = provisioned and d = "''d1''"
         and t = "''t1''" and tb = "Table (Dataset ''d1'') ''t1''" and rows = "JArr []"
         and ex = api_error and ?r1.0 = "remote provisioned"]
    remote_errors_propagation
      [where c = "stub_job_fails api_error" and w = provisioned and ex = api_error
         and ?r1.0 = "remote provisioned"
         and cl = "BQ \<lparr>projectId = ''p1'', credentials = None\<rparr>" and q = "''SELECT 1''"
         and legacy = False and tier = 3]
    remote_errors_propagation
      [where c = "stub_wait_fails api_error" and w = provisioned and ex = api_error
         and ?r1.0 = "remote provisioned"
         and cl = "BQ \<lparr>projectId = ''p1'', credentials = None\<rparr>" and q = "''SELECT 1''"
         and legacy = False and tier = 3 and jb = "Job ''job_1''"
         and ?r2.0 = "remote provisioned"]
  by (simp add: provisioned_lookups provisioned_fields stub_insert_fails_def
        stub_job_fails_def stub_wait_fails_def stub_def api_error_def)

section \<open>Lookups of names the prototype provides\<close>

text \<open>
  C9. \<^verbatim>\<open>getDataset\<close> is documented to throw a \<^verbatim>\<open>ReferenceError\<close> for a dataset that
  is not present. On a facade that has cached nothing, \<^verbatim>\<open>getDataset("toString")\<close> reads
  the member that the cache object inherits from \<^verbatim>\<open>Object.prototype\<close>, finds it truthy
  and returns it: no error is raised and the value returned is no dataset handle.
\<close>

theorem getDataset_inherited_member:
  "getDataset c (constructor nm cfg r0) ''toString'' = Inr (Foreign ''toString'')"
  by (simp add: getDataset_def constructor_def lookup_def empty_obj_def
        object_prototype_names_def)

section \<open>Before a successful init\<close>

text \<open>
  C4, as stated, fails: on a new facade \<^verbatim>\<open>insert\<close> fails with the not-found
  \<^verbatim>\<open>ReferenceError\<close> of \<^verbatim>\<open>getTable\<close>, which is not an error about the connection.
\<close>

theorem insert_before_init_not_found:
  "client fresh = None
   \<and> fst (insert_rows stub (JArr []) ''d1'' ''t1'' fresh) = Inl (table_not_found ''d1'' ''t1'')
   \<and> \<not> uninitialized_connection_error (table_not_found ''d1'' ''t1'')"
  by (simp add: fresh_def constructor_def insert_rows_def getTable_def lookup_def
        empty_obj_def table_key_def object_prototype_names_def
        uninitialized_connection_error_def table_not_found_def null_deref_def)

text \<open>
  C4, amended. In every world reached from the constructor in which the client is still
  \<^verbatim>\<open>null\<close>, every other operation fails and makes no remote call:
  \<^verbatim>\<open>createDataSet\<close>, \<^verbatim>\<open>query\<close> and \<^verbatim>\<open>queryStream\<close> with the \<^verbatim>\<open>TypeError\<close> of
  dereferencing the \<^verbatim>\<open>null\<close> client, \<^verbatim>\<open>insert\<close> and \<^verbatim>\<open>updateAvailable\<close> with the
  not-found error of \<^verbatim>\<open>getTable\<close>, and \<^verbatim>\<open>createTable\<close> with the not-found error of
  \<^verbatim>\<open>getDataset\<close> when the dataset name is not a member name of \<^verbatim>\<open>Object.prototype\<close>.
\<close>

theorem operations_fail_before_init:
  assumes "w = snd (run c ops (constructor nm cfg r0))"
    and "client w = None"
  shows "fst (createDataSet c n w) = Inl (null_deref ''dataset'')
       \<and> fst (query c q legacy tier w) = Inl (null_deref ''createQueryJob'')
       \<and> fst (queryStream c q legacy tier w) = Inl (null_deref ''createQueryStream'')
       \<and> fst (insert_rows c rows d t w) = Inl (table_not_found d t)
       \<and> fst (updateAvailable c t d w) = Inl (table_not_found d t)
       \<and> isl (fst (createTable c d t schema w))
       \<and> (d \<notin> set object_prototype_names \<longrightarrow>
            fst (createTable c d t schema w) = Inl (dataset_not_found d))
       \<and> calls (snd (createDataSet c n w)) = calls w
       \<and> calls (snd (query c q legacy tier w)) = calls w
       \<and> calls (snd (queryStream c q legacy tier w)) = calls w
       \<and> calls (snd (insert_rows c rows d t w)) = calls w
       \<and> calls (snd (updateAvailable c t d w)) = calls w
       \<and> calls (snd (createTable c d t schema w)) = calls w"
proof -
  have "uninit_inv w"
    using assms(1) run_uninit_inv [OF constructor_uninit_inv, of c ops nm cfg r0]
    by (metis prod.collapse)
  with assms(2) have e: "datasets w = empty_obj" "tables w = empty_obj"
    by (simp_all add: uninit_inv_def)
  have t: "getTable c w d t = Inl (table_not_found d t)"
    using e by (simp add: getTable_not_found empty_obj_def)
  have gl: "getDataset c (log w m x) d = getDataset c w d" for m x
    by (simp add: getDataset_def log_def)
  have log_calls: "calls (log w m x) = calls w" for m x
    by (simp add: log_def)
  have d: "d \<notin> set object_prototype_names \<Longrightarrow> getDataset c w d = Inl (dataset_not_found d)"
    using e by (simp add: getDataset_not_found empty_obj_def)
  have d': "getDataset c w d = Inl (dataset_not_found d) \<or> getDataset c w d = Inr (Foreign d)"
    using e by (simp add: getDataset_def lookup_def empty_obj_def)
  have 1: "fst (createDataSet c n w) = Inl (null_deref ''dataset'')
         \<and> calls (snd (createDataSet c n w)) = calls w"
    using assms(2) by (simp add: createDataSet_def log_def)
  have 2: "fst (query c q legacy tier w) = Inl (null_deref ''createQueryJob'')
         \<and> calls (snd (query c q legacy tier w)) = calls w"
    using assms(2) by (simp add: query_def)
  have 3: "fst (queryStream c q legacy tier w) = Inl (null_deref ''createQueryStream'')
         \<and> calls (snd (queryStream c q legacy tier w)) = calls w"
    using assms(2) by (simp add: queryStream_def)
  have 4: "fst (insert_rows c rows d t w) = Inl (table_not_found d t)
         \<and> calls (snd (insert_rows c rows d t w)) = calls w"
    using t by (simp add: insert_rows_def)
  have 5: "fst (updateAvailable c t d w) = Inl (table_not_found d t)
         \<and> calls (snd (updateAvailable c t d w)) = calls w"
    using t by (simp add: updateAvailable_def)
  have 6: "isl (fst (createTable c d t schema w))
         \<and> calls (snd (createTable c d t schema w)) = calls w"
    using d' by (auto simp add: createTable_def gl Let_def log_calls)
  have 7: "d \<notin> set object_prototype_names \<Longrightarrow>
           fst (createTable c d t schema w) = Inl (dataset_not_found d)"
    using d by (simp add: createTable_def gl Let_def)
  from 1 2 3 4 5 6 7 show ?thesis by blast
qed

theorem operations_fail_before_init_witness:
  "fst (createDataSet (stub_probe_fails api_error) ''d2'' uninitialized)
     = Inl (null_deref ''dataset'')
   \<and> fst (query (stub_probe_fails api_error) ''SELECT 1'' False 3 uninitialized)
     = Inl (null_deref ''createQueryJob'')
   \<and> fst (queryStream (stub_probe_fails api_error) ''SELECT 1'' False 3 uninitialized)
     = Inl (null_deref ''createQueryStream'')
   \<and> fst (insert_rows (stub_probe_fails api_error) (JArr []) ''d1'' ''t1'' uninitialized)
     = Inl (table_not_found ''d1'' ''t1'')
   \<and> fst (updateAvailable (stub_probe_fails api_error) ''t1'' ''d1'' uninitialized)
     = Inl (table_not_found ''d1'' ''t1'')
   \<and> fst (createTable (stub_probe_fails api_error) ''d1'' ''t1'' schema_t1 uninitialized)
     = Inl (dataset_not_found ''d1'')
   \<and> calls (snd (createTable (stub_probe_fails api_error) ''d1'' ''t1'' schema_t1
                   uninitialized))
     = calls uninitialized"
  using operations_fail_before_init
    [where w = uninitialized and c = "stub_probe_fails api_error"
       and ops = "[OpInit, OpCreateDataSet ''d1'']" and nm = "''bq''"
       and cfg = "\<lparr>projectId = ''p1'', credentials = None\<rparr>" and ?r0.0 = empty_warehouse
       and n = "''d2''" and q = "''SELECT 1''" and legacy = False and tier = 3
       and rows = "JArr []" and d = "''d1''" and t = "''t1''" and schema = schema_t1]
    uninitialized_client
  unfolding uninitialized_def [symmetric, unfolded fresh_def]
  by (simp add: object_prototype_names_def)

section \<open>The keys of the table cache\<close>

text \<open>
  C5, as stated, fails: the key of an entry is the text \<^verbatim>\<open>`${datasetName}.${tableName}`\<close>,
  and two different pairs can have the same text. After \<^verbatim>\<open>createTable("a.b", "c")\<close>,
  \<^verbatim>\<open>getTable("a", "b.c")\<close> returns the handle although \<^verbatim>\<open>createTable("a", "b.c")\<close> was
  never called.
\<close>

theorem table_key_collision:
  "(''a.b'', ''c'') \<noteq> (''a'', ''b.c'')
   \<and> table_key ''a.b'' ''c'' = table_key ''a'' ''b.c''
   \<and> fst (run stub
            [OpInit, OpCreateDataSet ''a.b'', OpCreateTable ''a.b'' ''c'' schema_t1]
            fresh)
     = [Inr VThis, Inr (VDataset (Handle (Dataset ''a.b''))),
        Inr (VTable (Handle (Table (Dataset ''a.b'') ''c'')))]
   \<and> getTable stub
        (snd (run stub
                [OpInit, OpCreateDataSet ''a.b'', OpCreateTable ''a.b'' ''c'' schema_t1]
                fresh))
        ''a'' ''b.c''
     = Inr (Handle (Table (Dataset ''a.b'') ''c''))"
  by (simp add: fresh_def stub_def empty_warehouse_def facade_defs)

text \<open>
  C5, amended. The table cache is keyed by the joined text of dataset and table name.
  After any sequence of calls on a new facade, \<^verbatim>\<open>getTable(d, t)\<close> returns a table handle
  exactly when some \<^verbatim>\<open>createTable\<close> whose names join to the same key has completed
  successfully, and otherwise fails with the not-found error. When no dataset name
  contains a dot, different pairs have different keys, and \<^verbatim>\<open>getTable(d, t)\<close> returns a
  handle exactly when \<^verbatim>\<open>createTable(d, t)\<close> itself has completed successfully.
\<close>

theorem table_cache_keyed_by_joined_name:
  assumes "run c ops (constructor nm cfg r0) = (rs, w)"
  shows "((\<exists>tb. getTable c w d t = Inr (Handle tb)) \<longleftrightarrow>
            (\<exists>d' t' s v. (OpCreateTable d' t' s, Inr v) \<in> set (zip ops rs)
                          \<and> table_key d' t' = table_key d t))
       \<and> ((\<nexists>tb. getTable c w d t = Inr (Handle tb)) \<longleftrightarrow>
            getTable c w d t = Inl (table_not_found d t))
       \<and> (CHR ''.'' \<notin> set d
            \<and> (\<forall>d' t' s. OpCreateTable d' t' s \<in> set ops \<longrightarrow> CHR ''.'' \<notin> set d') \<longrightarrow>
            ((\<exists>tb. getTable c w d t = Inr (Handle tb)) \<longleftrightarrow>
               (\<exists>s v. (OpCreateTable d t s, Inr v) \<in> set (zip ops rs))))
       \<and> (\<forall>d' t'. CHR ''.'' \<notin> set d \<and> CHR ''.'' \<notin> set d' \<and> (d', t') \<noteq> (d, t) \<longrightarrow>
            table_key d' t' \<noteq> table_key d t)"
proof -
  note inv = run_from_constructor_tables [OF assms]
  have a: "(\<exists>tb. getTable c w d t = Inr (Handle tb)) \<longleftrightarrow>
            (\<exists>d' t' s v. (OpCreateTable d' t' s, Inr v) \<in> set (zip ops rs)
                          \<and> table_key d' t' = table_key d t)"
  proof -
    have "table_key d t \<in> (\<Union>(x, r) \<in> set (zip ops rs). tables_step x r) \<longleftrightarrow>
            (\<exists>d' t' s v. (OpCreateTable d' t' s, Inr v) \<in> set (zip ops rs)
                          \<and> table_key d' t' = table_key d t)"
      (is "?L \<longleftrightarrow> ?R")
    proof
      assume ?L
      then obtain x r where "(x, r) \<in> set (zip ops rs)" "table_key d t \<in> tables_step x r"
        by auto
      then obtain d' t' s v where
        "(OpCreateTable d' t' s, Inr v) \<in> set (zip ops rs)" "table_key d' t' = table_key d t"
        unfolding tables_step_def mem_Collect_eq by metis
      then show ?R by blast
    next
      assume ?R
      then obtain d' t' s v where
        m: "(OpCreateTable d' t' s, Inr v) \<in> set (zip ops rs)"
        and k: "table_key d' t' = table_key d t"
        by blast
      have "table_key d t \<in> tables_step (OpCreateTable d' t' s) (Inr v)"
        using k by (simp add: tables_step_def)
      with m show ?L by blast
    qed
    then show ?thesis
      using getTable_visible_iff(1) [OF inv(1), where c = c and d = d and t = t] inv(2)
      by simp
  qed
  have b: "(\<nexists>tb. getTable c w d t = Inr (Handle tb)) \<longleftrightarrow>
            getTable c w d t = Inl (table_not_found d t)"
    using getTable_visible_iff(1,3) [OF inv(1), where c = c and d = d and t = t] by auto
  have c: "(\<exists>tb. getTable c w d t = Inr (Handle tb)) \<longleftrightarrow>
               (\<exists>s v. (OpCreateTable d t s, Inr v) \<in> set (zip ops rs))"
    if "CHR ''.'' \<notin> set d"
      and "\<forall>d' t' s. OpCreateTable d' t' s \<in> set ops \<longrightarrow> CHR ''.'' \<notin> set d'"
  proof -
    have "d' = d \<and> t' = t"
      if "(OpCreateTable d' t' s, Inr v) \<in> set (zip ops rs)"
        and "table_key d' t' = table_key d t"
      for d' t' s v
    proof -
      from that(1) have "OpCreateTable d' t' s \<in> set ops" by (rule set_zip_leftD)
      with \<open>\<forall>d' t' s. OpCreateTable d' t' s \<in> set ops \<longrightarrow> CHR ''.'' \<notin> set d'\<close>
      have "CHR ''.'' \<notin> set d'" by blast
      with that(2) \<open>CHR ''.'' \<notin> set d\<close> show ?thesis by (simp add: table_key_inj)
    qed
    with a show ?thesis by blast
  qed
  have d: "\<forall>d' t'. CHR ''.'' \<notin> set d \<and> CHR ''.'' \<notin> set d' \<and> (d', t') \<noteq> (d, t) \<longrightarrow>
            table_key d' t' \<noteq> table_key d t"
    by (auto simp: table_key_inj)
  from a b c d show ?thesis by blast
qed

theorem table_cache_keyed_by_joined_name_witness:
  "(\<exists>tb. getTable stub provisioned ''d1'' ''t1'' = Inr (Handle tb))
   \<and> getTable stub provisioned ''d1'' ''t2'' = Inl (table_not_found ''d1'' ''t2'')
   \<and> table_key ''d1'' ''t2'' \<noteq> table_key ''d1'' ''t1''"
proof -
  note th = table_cache_keyed_by_joined_name [OF provisioned_run, of "''d1''"]
  have nodots:
    "CHR ''.'' \<notin> set ''d1'' \<and>
     (\<forall>d' t' s.
        OpCreateTable d' t' s
          \<in> set [OpInit, OpCreateDataSet ''d1'', OpCreateTable ''d1'' ''t1'' schema_t1]
        \<longrightarrow> CHR ''.'' \<notin> set d')"
    by simp
  have 1: "\<exists>tb. getTable stub provisioned ''d1'' ''t1'' = Inr (Handle tb)"
    using th [of "''t1''"] nodots by simp
  have "\<nexists>tb. getTable stub provisioned ''d1'' ''t2'' = Inr (Handle tb)"
    using th [of "''t2''"] nodots by simp
  then have 2: "getTable stub provisioned ''d1'' ''t2'' = Inl (table_not_found ''d1'' ''t2'')"
    using th [of "''t2''"] by blast
  have 3: "table_key ''d1'' ''t2'' \<noteq> table_key ''d1'' ''t1''"
    using th [of "''t1''"] by simp
  from 1 2 3 show ?thesis by blast
qed

end
